theory Spec2Isabelle
  imports Main
begin

section \<open>The reflection graph read by the visitor\<close>

text \<open>
  Strings are lists of code units; the model covers code units below 256.
  A property that may be \<open>undefined\<close> at run time is an \<open>option\<close>.
\<close>

record CommentTag =
  tagName :: string
  tagText :: string

record Comment =
  shortText :: string
  commentText :: string
  tags :: "CommentTag list option"

text \<open>The eight flags the visitor reads; each may be true, false or absent.\<close>

record ReflectionFlags =
  isExported :: "bool option"
  isExternal :: "bool option"
  isOptional :: "bool option"
  isPrivate :: "bool option"
  isProtected :: "bool option"
  isPublic :: "bool option"
  isRest :: "bool option"
  isStatic :: "bool option"

record SourceFile =
  fullFileName :: "string option"

record SourceReference =
  sourceFile :: "SourceFile option"

datatype ReflectionKind =
  KProject | KInterface | KClass | KMethod | KProperty | KSignature | KParameter | KOther

text \<open>
  One node of the graph. The type parameter is the library's type reference,
  which the visitor only hands on to the type resolver.
\<close>

datatype 't Reflection = Reflection
  (ref_name: string)
  (ref_kind: ReflectionKind)
  (ref_flags: "ReflectionFlags option")
  (ref_comment: "Comment option")
  (ref_sources: "SourceReference list option")
  (ref_defaultValue: "string option")
  (ref_type: "'t option")
  (ref_children: "'t Reflection list option")
  (ref_signatures: "'t Reflection list option")
  (ref_parameters: "'t Reflection list option")

record 't ProjectReflection =
  reflections :: "'t Reflection list"

text \<open>
  Modelled from the spec: the library's two selection methods, which are not
  part of this repository. The spec has the project yield its interface-kind
  (class-kind) reflections in discovery order, and a container yield its
  children of one kind; a container without children yields none.
\<close>

definition getReflectionsByKind ::
  "'t ProjectReflection \<Rightarrow> ReflectionKind \<Rightarrow> 't Reflection list" where
  "getReflectionsByKind project k = filter (\<lambda>r. ref_kind r = k) (reflections project)"

definition getChildrenByKind :: "'t Reflection \<Rightarrow> ReflectionKind \<Rightarrow> 't Reflection list" where
  "getChildrenByKind def k =
     (case ref_children def of
        None \<Rightarrow> []
      | Some cs \<Rightarrow> filter (\<lambda>r. ref_kind r = k) cs)"

section \<open>String primitives of the host language\<close>

text \<open>White space and line terminators among the code units below 256.\<close>

definition isWhiteSpace :: "char \<Rightarrow> bool" where
  "isWhiteSpace c = (c \<in> set [CHR 0x09, CHR 0x0A, CHR 0x0B, CHR 0x0C, CHR 0x0D, CHR 0x20, CHR 0xA0])"

definition trim :: "string \<Rightarrow> string" where
  "trim s = rev (dropWhile isWhiteSpace (rev (dropWhile isWhiteSpace s)))"

text \<open>
  \<open>Array.prototype.join\<close>: the result starts empty; before every element but
  the first the separator is appended, then the element.
\<close>

fun join_loop :: "string \<Rightarrow> string list \<Rightarrow> nat \<Rightarrow> string \<Rightarrow> string" where
  "join_loop sep [] k R = R"
| "join_loop sep (x # xs) k R =
     join_loop sep xs (Suc k) ((if 0 < k then R @ sep else R) @ x)"

definition join :: "string list \<Rightarrow> string \<Rightarrow> string" where
  "join xs sep = join_loop sep xs 0 []"

section \<open>The document entries written by the visitor\<close>

datatype Kind = Interface | Class | Property | Method | Signature | Parameter

datatype bool_or_string = JsBool bool | JsString string

record ITsFlags = ReflectionFlags +
  isDeprecated :: "bool_or_string option"

record 'b ITsDocEntry =
  documentation :: "'b option"
  fileName :: "string option"
  flags :: "ITsFlags option"
  kind :: Kind
  name :: string

text \<open>Properties and parameters carry the same two further fields.\<close>

record 'b ITsProperty = "'b ITsDocEntry" +
  defaultValue :: "string option"
  type :: string

type_synonym 'b ITsMethodParameter = "'b ITsProperty"

record 'b ITsMethodSignature = "'b ITsDocEntry" +
  parameters :: "'b ITsMethodParameter list"
  returnType :: string
  signatureType :: string

record 'b ITsMethod = "'b ITsDocEntry" +
  signatures :: "'b ITsMethodSignature list"

record 'b ITsInterface = "'b ITsDocEntry" +
  methods :: "'b ITsMethod list"
  properties :: "'b ITsProperty list"

type_synonym 'b ITsClass = "'b ITsInterface"

section \<open>Errors\<close>

text \<open>
  Reading a property of \<open>undefined\<close> raises a type error; the string names
  the property. What a collaborator throws is passed on as it is.
\<close>

datatype error = TypeError string | External string

definition bindE :: "error + 'a \<Rightarrow> ('a \<Rightarrow> error + 'c) \<Rightarrow> error + 'c" where
  "bindE m f = (case m of Inl e \<Rightarrow> Inl e | Inr x \<Rightarrow> f x)"

fun filterE :: "('a \<Rightarrow> error + bool) \<Rightarrow> 'a list \<Rightarrow> error + 'a list" where
  "filterE p [] = Inr []"
| "filterE p (x # xs) =
     bindE (p x) (\<lambda>keep. bindE (filterE p xs) (\<lambda>ys. Inr (if keep then x # ys else ys)))"

fun mapE :: "('a \<Rightarrow> error + 'c) \<Rightarrow> 'a list \<Rightarrow> error + 'c list" where
  "mapE f [] = Inr []"
| "mapE f (x # xs) = bindE (f x) (\<lambda>y. bindE (mapE f xs) (\<lambda>ys. Inr (y # ys)))"

section \<open>The visitor\<close>

text \<open>
  The visitor object: its renderer and its options, with the imported type
  resolvers and the path function (relative to the working directory) that its
  methods call. No method assigns to any of them.
\<close>

record ITypescriptPluginOptions =
  includeNonExported :: "bool option"

record ('t, 'b) Visitor =
  renderBlock :: "string \<Rightarrow> 'b"
  options :: ITypescriptPluginOptions
  resolveTypeString :: "'t option \<Rightarrow> string"
  resolveSignature :: "'t Reflection \<Rightarrow> string"
  relativeToCwd :: "string \<Rightarrow> string"

subsection \<open>Free functions\<close>

definition getCommentTag :: "Comment option \<Rightarrow> string \<Rightarrow> CommentTag option" where
  "getCommentTag comment tn =
     (case comment of
        None \<Rightarrow> None
      | Some c \<Rightarrow>
          (case tags c of
             None \<Rightarrow> None
           | Some ts \<Rightarrow> find (\<lambda>tag. tagName tag = tn) ts))"

definition getDefaultValue :: "'t Reflection \<Rightarrow> string option" where
  "getDefaultValue ref =
     (case ref_defaultValue ref of
        Some d \<Rightarrow> Some d
      | None \<Rightarrow>
          (case getCommentTag (ref_comment ref) ''default'' of
             Some tag \<Rightarrow> Some (trim (tagText tag))
           | None \<Rightarrow> None))"

definition getFileName :: "('t, 'b) Visitor \<Rightarrow> 't Reflection \<Rightarrow> string option" where
  "getFileName v ref =
     (let sources = (case ref_sources ref of None \<Rightarrow> [] | Some ss \<Rightarrow> ss);
          fileName = (case sources of
                        [] \<Rightarrow> None
                      | source # _ \<Rightarrow>
                          (case sourceFile source of
                             None \<Rightarrow> None
                           | Some f \<Rightarrow> fullFileName f))
      in case fileName of
           None \<Rightarrow> None
         | Some fn \<Rightarrow> if fn = [] then Some fn else Some (relativeToCwd v fn))"

definition getIsDeprecated :: "'t Reflection \<Rightarrow> bool_or_string option" where
  "getIsDeprecated ref =
     (case getCommentTag (ref_comment ref) ''deprecated'' of
        None \<Rightarrow> None
      | Some deprecatedTag \<Rightarrow>
          (let txt = trim (tagText deprecatedTag)
           in if txt = [] then Some (JsBool True) else Some (JsString txt)))"

definition getFlags :: "'t Reflection \<Rightarrow> ITsFlags option" where
  "getFlags ref =
     (case ref_flags ref of
        None \<Rightarrow> None
      | Some fl \<Rightarrow>
          Some \<lparr> isExported = isExported fl, isExternal = isExternal fl,
                 isOptional = isOptional fl, isPrivate = isPrivate fl,
                 isProtected = isProtected fl, isPublic = isPublic fl,
                 isRest = isRest fl, isStatic = isStatic fl,
                 isDeprecated = getIsDeprecated ref \<rparr>)"

subsection \<open>Methods\<close>

definition filterReflection :: "('t, 'b) Visitor \<Rightarrow> 't Reflection \<Rightarrow> error + bool" where
  "filterReflection v def =
     (case ref_flags def of
        None \<Rightarrow> Inl (TypeError ''isExported'')
      | Some fl \<Rightarrow>
          Inr (isExported fl = Some True \<or> includeNonExported (options v) = Some True))"

definition visitChildren ::
  "('t, 'b) Visitor \<Rightarrow> 't Reflection list \<Rightarrow> ('t Reflection \<Rightarrow> error + 'e) \<Rightarrow> error + 'e list" where
  "visitChildren v children visitor =
     bindE (filterE (filterReflection v) children) (mapE visitor)"

definition renderComment :: "('t, 'b) Visitor \<Rightarrow> Comment option \<Rightarrow> 'b option" where
  "renderComment v comment =
     (case comment of
        None \<Rightarrow> None
      | Some c \<Rightarrow>
          (let d0 = [];
               d1 = (if shortText c \<noteq> [] then d0 @ shortText c else d0);
               d2 = (if commentText c \<noteq> []
                     then d1 @ [CHR 0x0A, CHR 0x0A] @ commentText c else d1);
               d3 = (case tags c of
                       None \<Rightarrow> d2
                     | Some ts \<Rightarrow>
                         d2 @ [CHR 0x0A, CHR 0x0A] @
                         join (map (\<lambda>tag. ''@'' @ tagName tag @ '' '' @ tagText tag)
                                 (filter (\<lambda>tag. tagName tag \<noteq> ''default''
                                              \<and> tagName tag \<noteq> ''deprecated'') ts))
                              [CHR 0x0A])
           in Some (renderBlock v d3)))"

definition makeDocEntry :: "('t, 'b) Visitor \<Rightarrow> 't Reflection \<Rightarrow> Kind \<Rightarrow> 'b ITsDocEntry" where
  "makeDocEntry v def k =
     \<lparr> documentation = renderComment v (ref_comment def),
       fileName = getFileName v def,
       flags = getFlags def,
       kind = k,
       name = ref_name def \<rparr>"

definition visitParameter :: "('t, 'b) Visitor \<Rightarrow> 't Reflection \<Rightarrow> 'b ITsMethodParameter" where
  "visitParameter v param =
     (let base = makeDocEntry v param Parameter
      in \<lparr> documentation = documentation base, fileName = fileName base,
            flags = flags base, kind = kind base, name = name base,
            defaultValue = getDefaultValue param,
            type = resolveTypeString v (ref_type param) \<rparr>)"

definition visitSignature :: "('t, 'b) Visitor \<Rightarrow> 't Reflection \<Rightarrow> 'b ITsMethodSignature" where
  "visitSignature v sig =
     (let base = makeDocEntry v sig Signature
      in \<lparr> documentation = documentation base, fileName = fileName base,
            flags = flags base, kind = kind base, name = name base,
            parameters = map (\<lambda>param. visitParameter v param)
                           (case ref_parameters sig of None \<Rightarrow> [] | Some ps \<Rightarrow> ps),
            returnType = resolveTypeString v (ref_type sig),
            signatureType = resolveSignature v sig \<rparr>)"

definition visitMethod :: "('t, 'b) Visitor \<Rightarrow> 't Reflection \<Rightarrow> error + 'b ITsMethod" where
  "visitMethod v def =
     (let base = makeDocEntry v def Method
      in case ref_signatures def of
           None \<Rightarrow> Inl (TypeError ''map'')
         | Some sigs \<Rightarrow>
             Inr \<lparr> documentation = documentation base, fileName = fileName base,
                   flags = flags base, kind = kind base, name = name base,
                   signatures = map (\<lambda>sig. visitSignature v sig) sigs \<rparr>)"

definition visitProperty :: "('t, 'b) Visitor \<Rightarrow> 't Reflection \<Rightarrow> 'b ITsProperty" where
  "visitProperty v def =
     (let base = makeDocEntry v def Property
      in \<lparr> documentation = documentation base, fileName = fileName base,
            flags = flags base, kind = kind base, name = name base,
            defaultValue = getDefaultValue def,
            type = resolveTypeString v (ref_type def) \<rparr>)"

definition visitInterface :: "('t, 'b) Visitor \<Rightarrow> 't Reflection \<Rightarrow> error + 'b ITsInterface" where
  "visitInterface v def =
     (let base = makeDocEntry v def Interface
      in bindE (visitChildren v (getChildrenByKind def KMethod) (visitMethod v)) (\<lambda>ms.
         bindE (visitChildren v (getChildrenByKind def KProperty)
                  (\<lambda>d. Inr (visitProperty v d))) (\<lambda>ps.
         Inr \<lparr> documentation = documentation base, fileName = fileName base,
               flags = flags base, kind = kind base, name = name base,
               methods = ms, properties = ps \<rparr>)))"

definition visitClass :: "('t, 'b) Visitor \<Rightarrow> 't Reflection \<Rightarrow> error + 'b ITsClass" where
  "visitClass v def = bindE (visitInterface v def) (\<lambda>e. Inr (e\<lparr>kind := Class\<rparr>))"

definition visitProject ::
  "('t, 'b) Visitor \<Rightarrow> 't ProjectReflection \<Rightarrow> error + 'b ITsInterface list" where
  "visitProject v project =
     bindE (visitChildren v (getReflectionsByKind project KInterface) (visitInterface v))
       (\<lambda>interfaces.
     bindE (visitChildren v (getReflectionsByKind project KClass) (visitClass v))
       (\<lambda>classes.
     Inr (interfaces @ classes)))"

section \<open>The visitor with collaborators that act on the world\<close>

text \<open>
  The pure model above takes the collaborators as functions that return. Here
  they act on a world: a call may change it, may depend on it and may throw.
  The world holds whatever the collaborators can reach, the working directory
  among it; the fields of the visitor object are private to it and lie beside
  the world. A method is an action on the pair of both, so that what a call
  leaves behind is a result of the model.
\<close>

record ('b, 'w) VisitorObject =
  this_compiler :: "string \<Rightarrow> 'w \<Rightarrow> (string + 'b) \<times> 'w"
  this_options :: ITypescriptPluginOptions

record ('t, 'w) Imports =
  imp_resolveTypeString :: "'t option \<Rightarrow> 'w \<Rightarrow> (string + string) \<times> 'w"
  imp_resolveSignature :: "'t Reflection \<Rightarrow> 'w \<Rightarrow> (string + string) \<times> 'w"
  imp_relativeToCwd :: "string \<Rightarrow> 'w \<Rightarrow> (string + string) \<times> 'w"

type_synonym ('a, 'b, 'w) action =
  "('b, 'w) VisitorObject \<times> 'w \<Rightarrow> (error + 'a) \<times> (('b, 'w) VisitorObject \<times> 'w)"

definition returnS :: "'a \<Rightarrow> ('a, 'b, 'w) action" where
  "returnS x s = (Inr x, s)"

definition raiseS :: "error \<Rightarrow> ('a, 'b, 'w) action" where
  "raiseS e s = (Inl e, s)"

definition bindS :: "('a, 'b, 'w) action \<Rightarrow> ('a \<Rightarrow> ('c, 'b, 'w) action) \<Rightarrow> ('c, 'b, 'w) action" where
  "bindS m f s = (case m s of (Inl e, s') \<Rightarrow> (Inl e, s') | (Inr x, s') \<Rightarrow> f x s')"

text \<open>Reading \<open>this\<close>, and calling a collaborator on the world.\<close>

definition readThis :: "(('b, 'w) VisitorObject, 'b, 'w) action" where
  "readThis s = (Inr (fst s), s)"

definition callS :: "('w \<Rightarrow> (string + 'a) \<times> 'w) \<Rightarrow> ('a, 'b, 'w) action" where
  "callS c s =
     (case c (snd s) of
        (Inl x, w') \<Rightarrow> (Inl (External x), (fst s, w'))
      | (Inr y, w') \<Rightarrow> (Inr y, (fst s, w')))"

fun filterS :: "('a \<Rightarrow> (bool, 'b, 'w) action) \<Rightarrow> 'a list \<Rightarrow> ('a list, 'b, 'w) action" where
  "filterS p [] = returnS []"
| "filterS p (x # xs) =
     bindS (p x) (\<lambda>keep. bindS (filterS p xs) (\<lambda>ys. returnS (if keep then x # ys else ys)))"

fun mapS :: "('a \<Rightarrow> ('c, 'b, 'w) action) \<Rightarrow> 'a list \<Rightarrow> ('c list, 'b, 'w) action" where
  "mapS f [] = returnS []"
| "mapS f (x # xs) = bindS (f x) (\<lambda>y. bindS (mapS f xs) (\<lambda>ys. returnS (y # ys)))"

definition getFileName_st :: "('t, 'w) Imports \<Rightarrow> 't Reflection \<Rightarrow> (string option, 'b, 'w) action" where
  "getFileName_st imp ref =
     (let sources = (case ref_sources ref of None \<Rightarrow> [] | Some ss \<Rightarrow> ss);
          fileName = (case sources of
                        [] \<Rightarrow> None
                      | source # _ \<Rightarrow>
                          (case sourceFile source of
                             None \<Rightarrow> None
                           | Some f \<Rightarrow> fullFileName f))
      in case fileName of
           None \<Rightarrow> returnS None
         | Some fn \<Rightarrow>
             if fn = [] then returnS (Some fn)
             else bindS (callS (imp_relativeToCwd imp fn)) (\<lambda>rel. returnS (Some rel)))"

definition filterReflection_st :: "'t Reflection \<Rightarrow> (bool, 'b, 'w) action" where
  "filterReflection_st def =
     (case ref_flags def of
        None \<Rightarrow> raiseS (TypeError ''isExported'')
      | Some fl \<Rightarrow>
          if isExported fl = Some True then returnS True
          else bindS readThis (\<lambda>this.
               returnS (includeNonExported (this_options this) = Some True)))"

definition visitChildren_st ::
  "'t Reflection list \<Rightarrow> ('t Reflection \<Rightarrow> ('e, 'b, 'w) action) \<Rightarrow> ('e list, 'b, 'w) action" where
  "visitChildren_st children visitor = bindS (filterS filterReflection_st children) (mapS visitor)"

definition renderComment_st :: "Comment option \<Rightarrow> ('b option, 'b, 'w) action" where
  "renderComment_st comment =
     (case comment of
        None \<Rightarrow> returnS None
      | Some c \<Rightarrow>
          (let d0 = [];
               d1 = (if shortText c \<noteq> [] then d0 @ shortText c else d0);
               d2 = (if commentText c \<noteq> []
                     then d1 @ [CHR 0x0A, CHR 0x0A] @ commentText c else d1);
               d3 = (case tags c of
                       None \<Rightarrow> d2
                     | Some ts \<Rightarrow>
                         d2 @ [CHR 0x0A, CHR 0x0A] @
                         join (map (\<lambda>tag. ''@'' @ tagName tag @ '' '' @ tagText tag)
                                 (filter (\<lambda>tag. tagName tag \<noteq> ''default''
                                              \<and> tagName tag \<noteq> ''deprecated'') ts))
                              [CHR 0x0A])
           in bindS readThis (\<lambda>this.
              bindS (callS (this_compiler this d3)) (\<lambda>block.
              returnS (Some block)))))"

definition makeDocEntry_st ::
  "('t, 'w) Imports \<Rightarrow> 't Reflection \<Rightarrow> Kind \<Rightarrow> ('b ITsDocEntry, 'b, 'w) action" where
  "makeDocEntry_st imp def k =
     bindS (renderComment_st (ref_comment def)) (\<lambda>doc.
     bindS (getFileName_st imp def) (\<lambda>fn.
     returnS \<lparr> documentation = doc, fileName = fn, flags = getFlags def,
               kind = k, name = ref_name def \<rparr>))"

definition visitParameter_st ::
  "('t, 'w) Imports \<Rightarrow> 't Reflection \<Rightarrow> ('b ITsMethodParameter, 'b, 'w) action" where
  "visitParameter_st imp param =
     bindS (makeDocEntry_st imp param Parameter) (\<lambda>base.
     bindS (callS (imp_resolveTypeString imp (ref_type param))) (\<lambda>ty.
     returnS \<lparr> documentation = documentation base, fileName = fileName base,
               flags = flags base, kind = kind base, name = name base,
               defaultValue = getDefaultValue param, type = ty \<rparr>))"

definition visitSignature_st ::
  "('t, 'w) Imports \<Rightarrow> 't Reflection \<Rightarrow> ('b ITsMethodSignature, 'b, 'w) action" where
  "visitSignature_st imp sig =
     bindS (makeDocEntry_st imp sig Signature) (\<lambda>base.
     bindS (mapS (\<lambda>param. visitParameter_st imp param)
              (case ref_parameters sig of None \<Rightarrow> [] | Some ps \<Rightarrow> ps)) (\<lambda>params.
     bindS (callS (imp_resolveTypeString imp (ref_type sig))) (\<lambda>rt.
     bindS (callS (imp_resolveSignature imp sig)) (\<lambda>st.
     returnS \<lparr> documentation = documentation base, fileName = fileName base,
               flags = flags base, kind = kind base, name = name base,
               parameters = params, returnType = rt, signatureType = st \<rparr>))))"

definition visitMethod_st ::
  "('t, 'w) Imports \<Rightarrow> 't Reflection \<Rightarrow> ('b ITsMethod, 'b, 'w) action" where
  "visitMethod_st imp def =
     bindS (makeDocEntry_st imp def Method) (\<lambda>base.
     case ref_signatures def of
       None \<Rightarrow> raiseS (TypeError ''map'')
     | Some sigs \<Rightarrow>
         bindS (mapS (\<lambda>sig. visitSignature_st imp sig) sigs) (\<lambda>ss.
         returnS \<lparr> documentation = documentation base, fileName = fileName base,
                   flags = flags base, kind = kind base, name = name base,
                   signatures = ss \<rparr>))"

definition visitProperty_st ::
  "('t, 'w) Imports \<Rightarrow> 't Reflection \<Rightarrow> ('b ITsProperty, 'b, 'w) action" where
  "visitProperty_st imp def =
     bindS (makeDocEntry_st imp def Property) (\<lambda>base.
     bindS (callS (imp_resolveTypeString imp (ref_type def))) (\<lambda>ty.
     returnS \<lparr> documentation = documentation base, fileName = fileName base,
               flags = flags base, kind = kind base, name = name base,
               defaultValue = getDefaultValue def, type = ty \<rparr>))"

definition visitInterface_st ::
  "('t, 'w) Imports \<Rightarrow> 't Reflection \<Rightarrow> ('b ITsInterface, 'b, 'w) action" where
  "visitInterface_st imp def =
     bindS (makeDocEntry_st imp def Interface) (\<lambda>base.
     bindS (visitChildren_st (getChildrenByKind def KMethod) (visitMethod_st imp)) (\<lambda>ms.
     bindS (visitChildren_st (getChildrenByKind def KProperty) (visitProperty_st imp)) (\<lambda>ps.
     returnS \<lparr> documentation = documentation base, fileName = fileName base,
               flags = flags base, kind = kind base, name = name base,
               methods = ms, properties = ps \<rparr>)))"

definition visitClass_st ::
  "('t, 'w) Imports \<Rightarrow> 't Reflection \<Rightarrow> ('b ITsClass, 'b, 'w) action" where
  "visitClass_st imp def =
     bindS (visitInterface_st imp def) (\<lambda>e. returnS (e\<lparr>kind := Class\<rparr>))"

definition visitProject_st ::
  "('t, 'w) Imports \<Rightarrow> 't ProjectReflection \<Rightarrow> ('b ITsInterface list, 'b, 'w) action" where
  "visitProject_st imp project =
     bindS (visitChildren_st (getReflectionsByKind project KInterface) (visitInterface_st imp))
       (\<lambda>interfaces.
     bindS (visitChildren_st (getReflectionsByKind project KClass) (visitClass_st imp))
       (\<lambda>classes.
     returnS (interfaces @ classes)))"

section \<open>What the specification says, as definitions\<close>

text \<open>The plain text of a comment in the words of the specification.\<close>

definition formatTag_spec :: "CommentTag \<Rightarrow> string" where
  "formatTag_spec t = ''@'' @ tagName t @ '' '' @ tagText t"

fun one_per_line :: "string list \<Rightarrow> string" where
  "one_per_line [] = []"
| "one_per_line [l] = l"
| "one_per_line (l # l' # ls) = l @ ''\<newline>'' @ one_per_line (l' # ls)"

definition plain_text_spec :: "Comment \<Rightarrow> string" where
  "plain_text_spec c =
     shortText c
     @ (if commentText c = [] then [] else ''\<newline>\<newline>'' @ commentText c)
     @ (case tags c of
          None \<Rightarrow> []
        | Some ts \<Rightarrow>
            ''\<newline>\<newline>'' @
            one_per_line (map formatTag_spec
              [t \<leftarrow> ts. tagName t \<notin> {''default'', ''deprecated''}]))"

text \<open>A comment carries a tag of the given name.\<close>

definition hasCommentTag :: "Comment option \<Rightarrow> string \<Rightarrow> bool" where
  "hasCommentTag comment tn =
     (case comment of
        None \<Rightarrow> False
      | Some c \<Rightarrow> (case tags c of None \<Rightarrow> False | Some ts \<Rightarrow> tn \<in> set (map tagName ts)))"

text \<open>The filtering rule: exported, or every member asked for.\<close>

definition exported :: "'t Reflection \<Rightarrow> bool" where
  "exported r = (case ref_flags r of None \<Rightarrow> False | Some fl \<Rightarrow> isExported fl = Some True)"

definition hasFlags :: "'t Reflection \<Rightarrow> bool" where
  "hasFlags r = (ref_flags r \<noteq> None)"

definition passesFilter :: "('t, 'b) Visitor \<Rightarrow> 't Reflection \<Rightarrow> bool" where
  "passesFilter v r =
     (hasFlags r \<and> (exported r \<or> includeNonExported (options v) = Some True))"



text \<open>
  What is asked of collaborators: to give the same answer in every world, or
  never to throw.
\<close>

definition fixed_result :: "('x \<Rightarrow> 'w \<Rightarrow> (string + 'y) \<times> 'w) \<Rightarrow> bool" where
  "fixed_result c = (\<forall>x w w'. fst (c x w) = fst (c x w'))"

definition never_throws :: "('x \<Rightarrow> 'w \<Rightarrow> (string + 'y) \<times> 'w) \<Rightarrow> bool" where
  "never_throws c = (\<forall>x w. \<exists>y. fst (c x w) = Inr y)"

definition fixed_imports :: "('t, 'w) Imports \<Rightarrow> bool" where
  "fixed_imports imp =
     (fixed_result (imp_resolveTypeString imp) \<and> fixed_result (imp_resolveSignature imp)
      \<and> fixed_result (imp_relativeToCwd imp))"

definition imports_return :: "('t, 'w) Imports \<Rightarrow> bool" where
  "imports_return imp =
     (never_throws (imp_resolveTypeString imp) \<and> never_throws (imp_resolveSignature imp)
      \<and> never_throws (imp_relativeToCwd imp))"

text \<open>
  Properties of an action: it leaves the visitor object as it was; from a
  given object its result is the same in every world; it raises no type error;
  from a given object it returns.
\<close>

definition keeps :: "('a, 'b, 'w) action \<Rightarrow> bool" where
  "keeps m = (\<forall>s. fst (snd (m s)) = fst s)"

definition same_result :: "('b, 'w) VisitorObject \<Rightarrow> ('a, 'b, 'w) action \<Rightarrow> bool" where
  "same_result this m = (\<forall>w w'. fst (m (this, w)) = fst (m (this, w')))"



text \<open>
  The collaborators of the pure model, as collaborators on a world that they
  leave alone, and an action that does what a pure result says.
\<close>

definition pure_this :: "('t, 'b) Visitor \<Rightarrow> ('b, 'w) VisitorObject" where
  "pure_this v =
     \<lparr> this_compiler = (\<lambda>x w. (Inr (renderBlock v x), w)), this_options = options v \<rparr>"

definition pure_imports :: "('t, 'b) Visitor \<Rightarrow> ('t, 'w) Imports" where
  "pure_imports v =
     \<lparr> imp_resolveTypeString = (\<lambda>t w. (Inr (resolveTypeString v t), w)),
       imp_resolveSignature = (\<lambda>sig w. (Inr (resolveSignature v sig), w)),
       imp_relativeToCwd = (\<lambda>fn w. (Inr (relativeToCwd v fn), w)) \<rparr>"

definition agrees :: "('b, 'w) VisitorObject \<Rightarrow> error + 'a \<Rightarrow> ('a, 'b, 'w) action \<Rightarrow> bool" where
  "agrees this r m = (\<forall>w. m (this, w) = (r, (this, w)))"

section \<open>A small project\<close>

text \<open>
  Type references are their names here, the renderer and the path function
  return their argument, and a signature resolves to its name.
\<close>

definition example_visitor :: "(string, string) Visitor" where
  "example_visitor =
     \<lparr> renderBlock = id,
       options = \<lparr> includeNonExported = None \<rparr>,
       resolveTypeString = (\<lambda>t. case t of None \<Rightarrow> ''any'' | Some n \<Rightarrow> n),
       resolveSignature = ref_name,
       relativeToCwd = id \<rparr>"

definition example_visitor_all :: "(string, string) Visitor" where
  "example_visitor_all = example_visitor \<lparr> options := \<lparr> includeNonExported = Some True \<rparr> \<rparr>"

definition flagsWith :: "bool option \<Rightarrow> ReflectionFlags" where
  "flagsWith e =
     \<lparr> isExported = e, isExternal = None, isOptional = None, isPrivate = None,
       isProtected = None, isPublic = None, isRest = None, isStatic = None \<rparr>"

definition bare :: "string \<Rightarrow> ReflectionKind \<Rightarrow> ReflectionFlags option \<Rightarrow> string Reflection" where
  "bare n k fl = Reflection n k fl None None None None None None None"

definition param_x :: "string Reflection" where
  "param_x = bare ''x'' KParameter (Some (flagsWith (Some False)))"

definition sig_bar :: "string Reflection" where
  "sig_bar =
     Reflection ''bar'' KSignature None None None None (Some ''string'') None None
       (Some [param_x])"

definition sig_none :: "string Reflection" where
  "sig_none = bare ''baz'' KSignature None"

definition comment_deprecated :: Comment where
  "comment_deprecated =
     \<lparr> shortText = ''Does a thing.'', commentText = [],
       tags = Some [\<lparr> tagName = ''deprecated'', tagText = [] \<rparr>] \<rparr>"

definition comment_reason :: Comment where
  "comment_reason =
     \<lparr> shortText = [], commentText = [],
       tags = Some [\<lparr> tagName = ''param'', tagText = ''x'' \<rparr>,
                    \<lparr> tagName = ''deprecated'', tagText = '' reason '' \<rparr>] \<rparr>"

definition comment_default :: Comment where
  "comment_default =
     \<lparr> shortText = ''Size.'', commentText = [],
       tags = Some [\<lparr> tagName = ''default'', tagText = ''  42  '' \<rparr>] \<rparr>"

definition comment_plain :: Comment where
  "comment_plain = \<lparr> shortText = ''S'', commentText = ''T'', tags = None \<rparr>"

definition method_bar :: "string Reflection" where
  "method_bar =
     Reflection ''bar'' KMethod (Some (flagsWith (Some True))) (Some comment_deprecated)
       None None None None (Some [sig_bar]) None"

definition method_hidden :: "string Reflection" where
  "method_hidden =
     Reflection ''hidden'' KMethod (Some (flagsWith (Some False))) (Some comment_reason)
       None None None None (Some [sig_none]) None"

definition method_broken :: "string Reflection" where
  "method_broken = bare ''broken'' KMethod (Some (flagsWith (Some True)))"

definition prop_size :: "string Reflection" where
  "prop_size =
     Reflection ''size'' KProperty (Some (flagsWith (Some True))) (Some comment_default)
       None None (Some ''number'') None None None"

definition prop_explicit :: "string Reflection" where
  "prop_explicit =
     Reflection ''width'' KProperty (Some (flagsWith (Some False))) (Some comment_default)
       None (Some ''7'') (Some ''number'') None None None"

definition prop_plain :: "string Reflection" where
  "prop_plain =
     Reflection ''depth'' KProperty None (Some comment_plain) None None None None None None"

definition iface_Foo :: "string Reflection" where
  "iface_Foo =
     Reflection ''Foo'' KInterface (Some (flagsWith (Some True))) None None None None
       (Some [method_bar, prop_size, method_hidden, prop_explicit]) None None"

definition class_Bar :: "string Reflection" where
  "class_Bar =
     Reflection ''Bar'' KClass (Some (flagsWith (Some True))) None None None None
       (Some [prop_size]) None None"

definition iface_broken :: "string Reflection" where
  "iface_broken =
     Reflection ''Broken'' KInterface (Some (flagsWith (Some True))) None None None None
       (Some [method_broken]) None None"

definition example_project :: "string ProjectReflection" where
  "example_project = \<lparr> reflections = [class_Bar, iface_Foo, method_bar, prop_size] \<rparr>"

definition broken_project :: "string ProjectReflection" where
  "broken_project = \<lparr> reflections = [iface_broken] \<rparr>"

definition flagless_project :: "string ProjectReflection" where
  "flagless_project = \<lparr> reflections = [bare ''Foo'' KInterface None] \<rparr>"

text \<open>
  Collaborators on a world that counts their calls. The strict type resolver
  throws on a missing type, the lenient one answers \<open>any\<close>.
\<close>

definition counting_this :: "(string, nat) VisitorObject" where
  "counting_this =
     \<lparr> this_compiler = (\<lambda>txt w. (Inr txt, Suc w)),
       this_options = \<lparr> includeNonExported = None \<rparr> \<rparr>"

definition strict_imports :: "(string, nat) Imports" where
  "strict_imports =
     \<lparr> imp_resolveTypeString =
         (\<lambda>t w. (case t of None \<Rightarrow> Inl ''type is undefined'' | Some n \<Rightarrow> Inr n, Suc w)),
       imp_resolveSignature = (\<lambda>sig w. (Inr (ref_name sig), Suc w)),
       imp_relativeToCwd = (\<lambda>fn w. (Inr fn, w)) \<rparr>"

definition lenient_imports :: "(string, nat) Imports" where
  "lenient_imports =
     \<lparr> imp_resolveTypeString =
         (\<lambda>t w. (case t of None \<Rightarrow> Inr ''any'' | Some n \<Rightarrow> Inr n, Suc w)),
       imp_resolveSignature = (\<lambda>sig w. (Inr (ref_name sig), Suc w)),
       imp_relativeToCwd = (\<lambda>fn w. (Inr fn, w)) \<rparr>"

definition param_n :: "string Reflection" where
  "param_n = Reflection ''n'' KParameter None None None None (Some ''number'') None None None"

definition sig_get :: "string Reflection" where
  "sig_get =
     Reflection ''get'' KSignature None None None None (Some ''string'') None None
       (Some [param_n])"

definition method_get :: "string Reflection" where
  "method_get =
     Reflection ''get'' KMethod (Some (flagsWith (Some True))) (Some comment_deprecated)
       None None None None (Some [sig_get]) None"

definition iface_Typed :: "string Reflection" where
  "iface_Typed =
     Reflection ''Typed'' KInterface (Some (flagsWith (Some True))) None None None None
       (Some [method_get, prop_size]) None None"

definition typed_project :: "string ProjectReflection" where
  "typed_project = \<lparr> reflections = [class_Bar, iface_Typed] \<rparr>"

lemmas example_defs =
  example_visitor_def example_visitor_all_def flagsWith_def bare_def param_x_def sig_bar_def
  sig_none_def comment_deprecated_def comment_reason_def comment_default_def
  comment_plain_def method_bar_def method_hidden_def method_broken_def prop_size_def
  prop_explicit_def prop_plain_def iface_Foo_def class_Bar_def iface_broken_def
  example_project_def broken_project_def flagless_project_def

lemmas visitor_defs =
  getReflectionsByKind_def getChildrenByKind_def isWhiteSpace_def trim_def join_def
  getCommentTag_def getDefaultValue_def getFileName_def getIsDeprecated_def getFlags_def
  filterReflection_def visitChildren_def renderComment_def makeDocEntry_def
  visitParameter_def visitSignature_def visitMethod_def visitProperty_def visitInterface_def
  visitClass_def visitProject_def Let_def

lemmas st_defs =
  returnS_def raiseS_def bindS_def readThis_def callS_def getFileName_st_def
  filterReflection_st_def visitChildren_st_def renderComment_st_def makeDocEntry_st_def
  visitParameter_st_def visitSignature_st_def visitMethod_st_def visitProperty_st_def
  visitInterface_st_def visitClass_st_def visitProject_st_def

lemmas st_example_defs =
  counting_this_def strict_imports_def lenient_imports_def param_n_def sig_get_def
  method_get_def iface_Typed_def typed_project_def

lemmas pure_defs =
  getReflectionsByKind_def getChildrenByKind_def getFlags_def getDefaultValue_def
  getIsDeprecated_def getCommentTag_def trim_def isWhiteSpace_def join_def Let_def

section \<open>Errors and lists\<close>

lemma bindE_simps [simp]:
  "bindE (Inl e) f = Inl e"
  "bindE (Inr x) f = f x"
  by (simp_all add: bindE_def)

lemma bindE_eq_Inr: "bindE m f = Inr y \<longleftrightarrow> (\<exists>x. m = Inr x \<and> f x = Inr y)"
  by (cases m) simp_all

lemma filterE_eq_Inr:
  "filterE p xs = Inr ys \<longleftrightarrow>
     (\<forall>x\<in>set xs. \<exists>b. p x = Inr b) \<and> ys = filter (\<lambda>x. p x = Inr True) xs"
proof (induction xs arbitrary: ys)
  case Nil
  show ?case by auto
next
  case (Cons x xs)
  show ?case
  proof (cases "p x")
    case (Inl e)
    then show ?thesis by auto
  next
    case (Inr b)
    then show ?thesis using Cons.IH by (auto simp: bindE_eq_Inr)
  qed
qed

lemma mapE_eq_Inr: "mapE f xs = Inr ys \<longleftrightarrow> map f xs = map Inr ys"
proof (induction xs arbitrary: ys)
  case Nil
  show ?case by auto
next
  case (Cons x xs)
  show ?case
  proof (cases "f x")
    case (Inl e)
    then show ?thesis by (cases ys) auto
  next
    case (Inr y)
    then show ?thesis using Cons.IH by (cases ys) (auto simp: bindE_eq_Inr)
  qed
qed

lemma mapE_pure: "mapE (\<lambda>x. Inr (g x)) xs = Inr (map g xs)"
  by (simp add: mapE_eq_Inr comp_def)

lemma mapE_all:
  assumes "mapE f xs = Inr ys" and "\<And>x y. f x = Inr y \<Longrightarrow> P y"
  shows "\<forall>y\<in>set ys. P y"
  using assms(1)
proof (induction xs arbitrary: ys)
  case Nil
  then show ?case by simp
next
  case (Cons x xs)
  then show ?case by (auto simp: bindE_eq_Inr assms(2))
qed

lemma find_first:
  "\<forall>x\<in>set pre. \<not> P x \<Longrightarrow> P t \<Longrightarrow> find P (pre @ t # post) = Some t"
  by (induction pre) simp_all

section \<open>Comments\<close>

lemma join_loop_newline:
  "join_loop ''\<newline>'' xs k R =
     R @ (if 0 < k \<and> xs \<noteq> [] then ''\<newline>'' else []) @ one_per_line xs"
proof (induction xs arbitrary: k R)
  case Nil
  show ?case by simp
next
  case (Cons x xs)
  let ?R = "(if 0 < k then R @ ''\<newline>'' else R) @ x"
  have "join_loop ''\<newline>'' (x # xs) k R = join_loop ''\<newline>'' xs (Suc k) ?R"
    by simp
  also have "\<dots> = ?R @ (if 0 < Suc k \<and> xs \<noteq> [] then ''\<newline>'' else []) @ one_per_line xs"
    by (rule Cons.IH)
  also have "\<dots> = R @ (if 0 < k \<and> x # xs \<noteq> [] then ''\<newline>'' else [])
                     @ one_per_line (x # xs)"
    by (cases xs) simp_all
  finally show ?case .
qed

lemma join_one_per_line: "join ls [CHR 0x0A] = one_per_line ls"
  using join_loop_newline [of ls 0 "[]"] by (simp add: join_def)

lemma renderComment_Some:
  "renderComment v (Some c) = Some (renderBlock v (plain_text_spec c))"
  by (cases "tags c")
     (simp_all add: renderComment_def plain_text_spec_def Let_def join_one_per_line
        formatTag_spec_def [abs_def])

text \<open>
  C4. A reflection without a comment has no documentation. Otherwise the text
  handed to the renderer is the short text, then a blank line and the long
  text when there is one, then, when the comment has a tag list, a blank line
  and the tags other than default and deprecated, each as \<open>@tagName tagText\<close>,
  one per line in their order. The comment with short text S, long text T and
  the tags deprecated (empty) and param (\<open>x: the value\<close>) gives
  S, blank line, T, blank line, \<open>@param x: the value\<close>.
\<close>

theorem renderComment_plain_text:
  "renderComment v None = None
   \<and> renderComment v (Some c) = Some (renderBlock v (plain_text_spec c))
   \<and> renderComment v
        (Some \<lparr> shortText = ''S'', commentText = ''T'',
                tags = Some [\<lparr> tagName = ''deprecated'', tagText = '''' \<rparr>,
                             \<lparr> tagName = ''param'', tagText = ''x: the value'' \<rparr>] \<rparr>)
      = Some (renderBlock v ''S\<newline>\<newline>T\<newline>\<newline>@param x: the value'')"
proof (intro conjI)
  show "renderComment v None = None"
    by (simp add: renderComment_def)
  show "renderComment v (Some c) = Some (renderBlock v (plain_text_spec c))"
    by (rule renderComment_Some)
  show "renderComment v
        (Some \<lparr> shortText = ''S'', commentText = ''T'',
                tags = Some [\<lparr> tagName = ''deprecated'', tagText = '''' \<rparr>,
                             \<lparr> tagName = ''param'', tagText = ''x: the value'' \<rparr>] \<rparr>)
      = Some (renderBlock v ''S\<newline>\<newline>T\<newline>\<newline>@param x: the value'')"
    by (simp add: renderComment_def Let_def join_def)
qed

section \<open>Tags that drive derived values\<close>

lemma getCommentTag_absent:
  "\<not> hasCommentTag comment tn \<Longrightarrow> getCommentTag comment tn = None"
  by (auto simp: hasCommentTag_def getCommentTag_def find_None_iff
           split: option.splits)

lemma getCommentTag_first:
  assumes "comment = Some c" and "tags c = Some (pre @ t # post)"
    and "\<forall>x\<in>set pre. tagName x \<noteq> tn" and "tagName t = tn"
  shows "getCommentTag comment tn = Some t"
  using assms by (simp add: getCommentTag_def find_first)

text \<open>
  C5. Without a deprecated tag on the comment, isDeprecated is absent. With
  one, the first such tag decides: isDeprecated is true when its trimmed text
  is empty, and the trimmed text otherwise. The derived flags of a reflection
  that has flags carry this value.
\<close>

theorem getIsDeprecated_derivation:
  "(\<not> hasCommentTag (ref_comment r) ''deprecated'' \<longrightarrow> getIsDeprecated r = None)
   \<and> (\<forall>c pre t post.
        ref_comment r = Some c \<and> tags c = Some (pre @ t # post) \<and>
        (\<forall>x\<in>set pre. tagName x \<noteq> ''deprecated'') \<and> tagName t = ''deprecated''
        \<longrightarrow> getIsDeprecated r =
              (if trim (tagText t) = [] then Some (JsBool True)
               else Some (JsString (trim (tagText t)))))
   \<and> (\<forall>fl. ref_flags r = Some fl \<longrightarrow>
        (\<exists>f. getFlags r = Some f \<and> isDeprecated f = getIsDeprecated r))"
proof (intro conjI allI impI)
  assume "\<not> hasCommentTag (ref_comment r) ''deprecated''"
  then show "getIsDeprecated r = None"
    by (simp add: getIsDeprecated_def getCommentTag_absent)
next
  fix c pre t post
  assume h: "ref_comment r = Some c \<and> tags c = Some (pre @ t # post) \<and>
        (\<forall>x\<in>set pre. tagName x \<noteq> ''deprecated'') \<and> tagName t = ''deprecated''"
  then have "getCommentTag (ref_comment r) ''deprecated'' = Some t"
    by (intro getCommentTag_first [of _ c pre t post]) simp_all
  then show "getIsDeprecated r =
              (if trim (tagText t) = [] then Some (JsBool True)
               else Some (JsString (trim (tagText t))))"
    by (simp add: getIsDeprecated_def Let_def)
next
  fix fl
  assume "ref_flags r = Some fl"
  then show "\<exists>f. getFlags r = Some f \<and> isDeprecated f = getIsDeprecated r"
    by (simp add: getFlags_def)
qed

theorem getIsDeprecated_derivation_witness:
  "\<not> hasCommentTag (ref_comment prop_size) ''deprecated''
   \<and> getIsDeprecated prop_size = None
   \<and> getIsDeprecated method_bar = Some (JsBool True)
   \<and> getIsDeprecated method_hidden = Some (JsString ''reason'')
   \<and> (\<exists>f. getFlags method_hidden = Some f \<and> isDeprecated f = Some (JsString ''reason''))"
proof -
  have n: "\<not> hasCommentTag (ref_comment prop_size) ''deprecated''"
    by (simp add: example_defs hasCommentTag_def)
  have a: "getIsDeprecated prop_size = None"
    using getIsDeprecated_derivation [of prop_size] n by blast
  have "ref_comment method_bar = Some comment_deprecated
        \<and> tags comment_deprecated = Some ([] @ \<lparr> tagName = ''deprecated'', tagText = [] \<rparr> # [])
        \<and> (\<forall>x\<in>set []. tagName x \<noteq> ''deprecated'')
        \<and> tagName \<lparr> tagName = ''deprecated'', tagText = [] \<rparr> = ''deprecated''"
    by (simp add: method_bar_def comment_deprecated_def)
  with getIsDeprecated_derivation [of method_bar]
  have "getIsDeprecated method_bar =
          (if trim (tagText \<lparr> tagName = ''deprecated'', tagText = [] \<rparr>) = []
           then Some (JsBool True)
           else Some (JsString (trim (tagText \<lparr> tagName = ''deprecated'', tagText = [] \<rparr>))))"
    by blast
  then have b: "getIsDeprecated method_bar = Some (JsBool True)"
    by (simp add: trim_def)
  have "ref_comment method_hidden = Some comment_reason
        \<and> tags comment_reason =
            Some ([\<lparr> tagName = ''param'', tagText = ''x'' \<rparr>]
                  @ \<lparr> tagName = ''deprecated'', tagText = '' reason '' \<rparr> # [])
        \<and> (\<forall>x\<in>set [\<lparr> tagName = ''param'', tagText = ''x'' \<rparr>]. tagName x \<noteq> ''deprecated'')
        \<and> tagName \<lparr> tagName = ''deprecated'', tagText = '' reason '' \<rparr> = ''deprecated''"
    by (simp add: method_hidden_def comment_reason_def)
  with getIsDeprecated_derivation [of method_hidden]
  have "getIsDeprecated method_hidden =
          (if trim (tagText \<lparr> tagName = ''deprecated'', tagText = '' reason '' \<rparr>) = []
           then Some (JsBool True)
           else Some (JsString
                  (trim (tagText \<lparr> tagName = ''deprecated'', tagText = '' reason '' \<rparr>))))"
    by blast
  then have c: "getIsDeprecated method_hidden = Some (JsString ''reason'')"
    by (simp add: trim_def isWhiteSpace_def)
  have "ref_flags method_hidden = Some (flagsWith (Some False))"
    by (simp add: method_hidden_def)
  with getIsDeprecated_derivation [of method_hidden] c
  have d: "\<exists>f. getFlags method_hidden = Some f \<and> isDeprecated f = Some (JsString ''reason'')"
    by simp
  from n a b c d show ?thesis by blast
qed

text \<open>
  C6. An explicit default value is used as it is, whatever the comment says.
  Without one, the trimmed text of the first default tag of the comment is
  used, and without such a tag the default value is absent. Properties and
  parameters both carry this value.
\<close>

theorem getDefaultValue_derivation:
  "(\<forall>d. ref_defaultValue r = Some d \<longrightarrow> getDefaultValue r = Some d)
   \<and> (ref_defaultValue r = None \<and> \<not> hasCommentTag (ref_comment r) ''default''
        \<longrightarrow> getDefaultValue r = None)
   \<and> (\<forall>c pre t post.
        ref_defaultValue r = None \<and>
        ref_comment r = Some c \<and> tags c = Some (pre @ t # post) \<and>
        (\<forall>x\<in>set pre. tagName x \<noteq> ''default'') \<and> tagName t = ''default''
        \<longrightarrow> getDefaultValue r = Some (trim (tagText t)))
   \<and> defaultValue (visitProperty v r) = getDefaultValue r
   \<and> defaultValue (visitParameter v r) = getDefaultValue r"
proof (intro conjI allI impI)
  fix d assume "ref_defaultValue r = Some d"
  then show "getDefaultValue r = Some d" by (simp add: getDefaultValue_def)
next
  assume "ref_defaultValue r = None \<and> \<not> hasCommentTag (ref_comment r) ''default''"
  then show "getDefaultValue r = None"
    by (simp add: getDefaultValue_def getCommentTag_absent)
next
  fix c pre t post
  assume h: "ref_defaultValue r = None \<and>
        ref_comment r = Some c \<and> tags c = Some (pre @ t # post) \<and>
        (\<forall>x\<in>set pre. tagName x \<noteq> ''default'') \<and> tagName t = ''default''"
  then have "getCommentTag (ref_comment r) ''default'' = Some t"
    by (intro getCommentTag_first [of _ c pre t post]) simp_all
  with h show "getDefaultValue r = Some (trim (tagText t))"
    by (simp add: getDefaultValue_def)
next
  show "defaultValue (visitProperty v r) = getDefaultValue r"
    by (simp add: visitProperty_def Let_def)
  show "defaultValue (visitParameter v r) = getDefaultValue r"
    by (simp add: visitParameter_def Let_def)
qed

theorem getDefaultValue_derivation_witness:
  "ref_defaultValue prop_explicit = Some ''7''
   \<and> hasCommentTag (ref_comment prop_explicit) ''default''
   \<and> getDefaultValue prop_explicit = Some ''7''
   \<and> ref_defaultValue method_bar = None
   \<and> \<not> hasCommentTag (ref_comment method_bar) ''default''
   \<and> getDefaultValue method_bar = None
   \<and> ref_defaultValue prop_size = None
   \<and> getDefaultValue prop_size = Some ''42''
   \<and> defaultValue (visitProperty example_visitor prop_size) = Some ''42''"
proof -
  have e: "ref_defaultValue prop_explicit = Some ''7''"
    and et: "hasCommentTag (ref_comment prop_explicit) ''default''"
    by (simp_all add: example_defs hasCommentTag_def)
  have a: "getDefaultValue prop_explicit = Some ''7''"
    using getDefaultValue_derivation [of prop_explicit] e by blast
  have n: "ref_defaultValue method_bar = None"
    and nt: "\<not> hasCommentTag (ref_comment method_bar) ''default''"
    by (simp_all add: example_defs hasCommentTag_def)
  have b: "getDefaultValue method_bar = None"
    using getDefaultValue_derivation [of method_bar] n nt by blast
  have s: "ref_defaultValue prop_size = None"
    by (simp add: prop_size_def)
  have "ref_defaultValue prop_size = None
        \<and> ref_comment prop_size = Some comment_default
        \<and> tags comment_default = Some ([] @ \<lparr> tagName = ''default'', tagText = ''  42  '' \<rparr> # [])
        \<and> (\<forall>x\<in>set []. tagName x \<noteq> ''default'')
        \<and> tagName \<lparr> tagName = ''default'', tagText = ''  42  '' \<rparr> = ''default''"
    by (simp add: prop_size_def comment_default_def)
  with getDefaultValue_derivation [of prop_size]
  have "getDefaultValue prop_size
          = Some (trim (tagText \<lparr> tagName = ''default'', tagText = ''  42  '' \<rparr>))"
    by blast
  then have c: "getDefaultValue prop_size = Some ''42''"
    by (simp add: trim_def isWhiteSpace_def)
  have d: "defaultValue (visitProperty example_visitor prop_size) = Some ''42''"
    using getDefaultValue_derivation [of prop_size example_visitor] c by simp
  from e et a n nt b s c d show ?thesis by blast
qed

section \<open>The export filter\<close>

lemma filterReflection_total: "(\<exists>b. filterReflection v c = Inr b) \<longleftrightarrow> hasFlags c"
  by (cases "ref_flags c") (simp_all add: filterReflection_def hasFlags_def)

lemma filterReflection_True: "filterReflection v c = Inr True \<longleftrightarrow> passesFilter v c"
  by (cases "ref_flags c")
     (simp_all add: filterReflection_def passesFilter_def hasFlags_def exported_def)

lemma visitChildren_eq_Inr:
  "visitChildren v cs f = Inr ys \<longleftrightarrow>
     (\<forall>c\<in>set cs. hasFlags c) \<and> mapE f (filter (passesFilter v) cs) = Inr ys"
  by (auto simp: visitChildren_def bindE_eq_Inr filterE_eq_Inr filterReflection_total
        filterReflection_True)

lemma passesFilter_default:
  "includeNonExported (options v) \<noteq> Some True \<Longrightarrow> passesFilter v c = exported c"
  by (cases "ref_flags c") (simp_all add: passesFilter_def hasFlags_def exported_def)

lemma passesFilter_all:
  "includeNonExported (options v) = Some True \<Longrightarrow> passesFilter v c = hasFlags c"
  by (simp add: passesFilter_def)

lemma visitInterface_eq_Inr:
  "visitInterface v def = Inr e \<longleftrightarrow>
     (\<forall>c\<in>set (getChildrenByKind def KMethod). hasFlags c) \<and>
     (\<forall>c\<in>set (getChildrenByKind def KProperty). hasFlags c) \<and>
     (\<exists>ms. mapE (visitMethod v) (filter (passesFilter v) (getChildrenByKind def KMethod)) = Inr ms \<and>
        e = \<lparr> documentation = renderComment v (ref_comment def),
              fileName = getFileName v def, flags = getFlags def,
              kind = Interface, name = ref_name def,
              methods = ms,
              properties = map (visitProperty v)
                  (filter (passesFilter v) (getChildrenByKind def KProperty)) \<rparr>)"
  by (auto simp: visitInterface_def Let_def bindE_eq_Inr visitChildren_eq_Inr mapE_pure
        makeDocEntry_def)

lemma visitInterface_kind: "visitInterface v def = Inr e \<Longrightarrow> kind e = Interface"
  by (auto simp: visitInterface_eq_Inr)

lemma visitClass_eq_Inr:
  "visitClass v def = Inr c \<longleftrightarrow> (\<exists>i. visitInterface v def = Inr i \<and> c = i\<lparr>kind := Class\<rparr>)"
  by (auto simp: visitClass_def bindE_eq_Inr)

lemma visitClass_kind: "visitClass v def = Inr e \<Longrightarrow> kind e = Class"
  by (auto simp: visitClass_eq_Inr)

lemma filter_kind_passes:
  "filter (passesFilter v) (getReflectionsByKind p k)
     = filter (\<lambda>r. ref_kind r = k \<and> passesFilter v r) (reflections p)"
  by (simp add: getReflectionsByKind_def conj_commute)

lemma visitInterface_Foo:
  "visitInterface example_visitor iface_Foo
     = Inr (projr (visitInterface example_visitor iface_Foo))"
  "visitInterface example_visitor_all iface_Foo
     = Inr (projr (visitInterface example_visitor_all iface_Foo))"
  by (simp_all add: example_defs visitor_defs)

text \<open>
  C3. When a container is mapped, its methods and properties are the visited
  children whose exported flag is true, as long as includeNonExported is unset
  or false: a child whose flag is false or absent is left out. With
  includeNonExported true, every method and property child is visited.
\<close>

theorem filter_children:
  assumes "visitInterface v def = Inr e"
  shows "(includeNonExported (options v) \<noteq> Some True \<longrightarrow>
            mapE (visitMethod v) (filter exported (getChildrenByKind def KMethod))
              = Inr (methods e)
            \<and> properties e
              = map (visitProperty v) (filter exported (getChildrenByKind def KProperty)))
       \<and> (includeNonExported (options v) = Some True \<longrightarrow>
            mapE (visitMethod v) (getChildrenByKind def KMethod) = Inr (methods e)
            \<and> properties e = map (visitProperty v) (getChildrenByKind def KProperty))"
proof -
  let ?M = "getChildrenByKind def KMethod" and ?P = "getChildrenByKind def KProperty"
  from assms have fm: "\<forall>c\<in>set ?M. hasFlags c" and fp: "\<forall>c\<in>set ?P. hasFlags c"
    and m: "mapE (visitMethod v) (filter (passesFilter v) ?M) = Inr (methods e)"
    and p: "properties e = map (visitProperty v) (filter (passesFilter v) ?P)"
    by (auto simp: visitInterface_eq_Inr)
  show ?thesis
  proof (intro conjI impI)
    assume d: "includeNonExported (options v) \<noteq> Some True"
    then have "passesFilter v = exported"
      by (auto simp: passesFilter_default)
    with m p show "mapE (visitMethod v) (filter exported ?M) = Inr (methods e)"
      and "properties e = map (visitProperty v) (filter exported ?P)"
      by simp_all
  next
    assume a: "includeNonExported (options v) = Some True"
    from fm have "filter (passesFilter v) ?M = ?M"
      by (simp add: passesFilter_all [OF a])
    with m show "mapE (visitMethod v) ?M = Inr (methods e)" by simp
    from fp have "filter (passesFilter v) ?P = ?P"
      by (simp add: passesFilter_all [OF a])
    with p show "properties e = map (visitProperty v) ?P" by simp
  qed
qed

theorem filter_children_witness:
  "visitInterface example_visitor iface_Foo
     = Inr (projr (visitInterface example_visitor iface_Foo))
   \<and> includeNonExported (options example_visitor) \<noteq> Some True
   \<and> filter exported (getChildrenByKind iface_Foo KMethod) = [method_bar]
   \<and> mapE (visitMethod example_visitor) [method_bar]
       = Inr (methods (projr (visitInterface example_visitor iface_Foo)))
   \<and> properties (projr (visitInterface example_visitor iface_Foo))
       = map (visitProperty example_visitor) [prop_size]
   \<and> visitInterface example_visitor_all iface_Foo
       = Inr (projr (visitInterface example_visitor_all iface_Foo))
   \<and> includeNonExported (options example_visitor_all) = Some True
   \<and> mapE (visitMethod example_visitor_all) [method_bar, method_hidden]
       = Inr (methods (projr (visitInterface example_visitor_all iface_Foo)))
   \<and> properties (projr (visitInterface example_visitor_all iface_Foo))
       = map (visitProperty example_visitor_all) [prop_size, prop_explicit]"
proof -
  have o: "includeNonExported (options example_visitor) \<noteq> Some True"
    and oa: "includeNonExported (options example_visitor_all) = Some True"
    by (simp_all add: example_visitor_def example_visitor_all_def)
  have m: "filter exported (getChildrenByKind iface_Foo KMethod) = [method_bar]"
    and p: "filter exported (getChildrenByKind iface_Foo KProperty) = [prop_size]"
    and ma: "getChildrenByKind iface_Foo KMethod = [method_bar, method_hidden]"
    and pa: "getChildrenByKind iface_Foo KProperty = [prop_size, prop_explicit]"
    by (simp_all add: example_defs getChildrenByKind_def exported_def)
  from filter_children [OF visitInterface_Foo(1)] o m p
  have a: "mapE (visitMethod example_visitor) [method_bar]
             = Inr (methods (projr (visitInterface example_visitor iface_Foo)))
           \<and> properties (projr (visitInterface example_visitor iface_Foo))
             = map (visitProperty example_visitor) [prop_size]"
    by simp
  from filter_children [OF visitInterface_Foo(2)] oa ma pa
  have b: "mapE (visitMethod example_visitor_all) [method_bar, method_hidden]
             = Inr (methods (projr (visitInterface example_visitor_all iface_Foo)))
           \<and> properties (projr (visitInterface example_visitor_all iface_Foo))
             = map (visitProperty example_visitor_all) [prop_size, prop_explicit]"
    by simp
  from visitInterface_Foo o oa m a b show ?thesis by blast
qed

section \<open>Signatures and parameters\<close>

text \<open>
  C1, as the code has it. The parameters of a signature are not filtered: each
  one is visited and kept, in order, whatever its exported flag and whatever
  includeNonExported says.
\<close>

theorem parameters_unfiltered:
  assumes "ref_parameters sig = Some ps"
  shows "parameters (visitSignature v sig) = map (visitParameter v) ps
         \<and> map name (parameters (visitSignature v sig)) = map ref_name ps"
  using assms
  by (simp add: visitSignature_def Let_def visitParameter_def makeDocEntry_def comp_def)

theorem parameters_unfiltered_witness:
  "ref_parameters sig_bar = Some [param_x]
   \<and> parameters (visitSignature example_visitor sig_bar)
       = map (visitParameter example_visitor) [param_x]
   \<and> map name (parameters (visitSignature example_visitor sig_bar)) = map ref_name [param_x]"
proof -
  have h: "ref_parameters sig_bar = Some [param_x]"
    by (simp add: sig_bar_def)
  from parameters_unfiltered [OF h, of example_visitor] h show ?thesis by blast
qed

text \<open>
  The parameter \<open>x\<close> is not exported and includeNonExported is unset, so the
  filter rejects it; the signature keeps it all the same.
\<close>

theorem parameters_filter_counterexample:
  "filterReflection example_visitor param_x = Inr False
   \<and> parameters (visitSignature example_visitor sig_bar) = [visitParameter example_visitor param_x]"
  by (simp add: example_defs filterReflection_def visitSignature_def Let_def)

text \<open>
  C10. A signature without a parameter list gets the empty list of
  parameters. A method is taken to carry a list of signatures: without one,
  visiting it raises, and with one every signature is visited.
\<close>

theorem signature_parameters:
  "(ref_parameters sig = None \<longrightarrow> parameters (visitSignature v sig) = [])
   \<and> (ref_signatures def = None \<longrightarrow> visitMethod v def = Inl (TypeError ''map''))
   \<and> (\<forall>sigs. ref_signatures def = Some sigs \<longrightarrow>
        (\<exists>m. visitMethod v def = Inr m \<and> signatures m = map (visitSignature v) sigs))"
  by (simp add: visitSignature_def visitMethod_def Let_def)

theorem signature_parameters_witness:
  "ref_parameters sig_none = None
   \<and> parameters (visitSignature example_visitor sig_none) = []
   \<and> ref_signatures method_broken = None
   \<and> visitMethod example_visitor method_broken = Inl (TypeError ''map'')
   \<and> ref_signatures method_bar = Some [sig_bar]
   \<and> (\<exists>m. visitMethod example_visitor method_bar = Inr m
          \<and> signatures m = map (visitSignature example_visitor) [sig_bar])"
proof -
  have a: "ref_parameters sig_none = None"
    and b: "ref_signatures method_broken = None"
    and c: "ref_signatures method_bar = Some [sig_bar]"
    by (simp_all add: sig_none_def method_broken_def method_bar_def bare_def)
  from signature_parameters [of sig_none example_visitor method_broken] a b
  have ab: "parameters (visitSignature example_visitor sig_none) = []"
      "visitMethod example_visitor method_broken = Inl (TypeError ''map'')"
    by blast+
  from signature_parameters [of sig_none example_visitor method_bar] c
  have "\<exists>m. visitMethod example_visitor method_bar = Inr m
          \<and> signatures m = map (visitSignature example_visitor) [sig_bar]"
    by blast
  with a b c ab show ?thesis by blast
qed

section \<open>Classes and the project\<close>

lemma visitProject_example:
  "visitProject example_visitor example_project
     = Inr (projr (visitProject example_visitor example_project))"
  "map kind (projr (visitProject example_visitor example_project)) = [Interface, Class]"
  "map name (projr (visitProject example_visitor example_project)) = [''Foo'', ''Bar'']"
  by (simp_all add: example_defs visitor_defs)

text \<open>
  C7. The entry of a class is the entry that the interface mapping gives for
  the same reflection, with the same documentation, file name, flags, name,
  methods and properties; only the kind is Class, where the interface mapping
  has Interface. Where the interface mapping raises, so does the class mapping.
\<close>

theorem visitClass_frame:
  "(\<forall>i. visitInterface v def = Inr i \<longrightarrow>
      (\<exists>c. visitClass v def = Inr c
         \<and> documentation c = documentation i \<and> fileName c = fileName i
         \<and> flags c = flags i \<and> name c = name i
         \<and> methods c = methods i \<and> properties c = properties i
         \<and> kind c = Class \<and> kind i = Interface))
   \<and> (\<forall>e. visitInterface v def = Inl e \<longrightarrow> visitClass v def = Inl e)"
  by (auto simp: visitClass_def visitInterface_kind)

theorem visitClass_frame_witness:
  "visitInterface example_visitor iface_Foo
     = Inr (projr (visitInterface example_visitor iface_Foo))
   \<and> (\<exists>c. visitClass example_visitor iface_Foo = Inr c
         \<and> name c = name (projr (visitInterface example_visitor iface_Foo))
         \<and> methods c = methods (projr (visitInterface example_visitor iface_Foo))
         \<and> properties c = properties (projr (visitInterface example_visitor iface_Foo))
         \<and> kind c = Class)
   \<and> visitInterface example_visitor iface_broken = Inl (TypeError ''map'')
   \<and> visitClass example_visitor iface_broken = Inl (TypeError ''map'')"
proof -
  have b: "visitInterface example_visitor iface_broken = Inl (TypeError ''map'')"
    by (simp add: example_defs visitor_defs)
  from visitClass_frame [of example_visitor iface_broken] b
  have c: "visitClass example_visitor iface_broken = Inl (TypeError ''map'')"
    by blast
  from visitClass_frame [of example_visitor iface_Foo] visitInterface_Foo(1)
  have "\<exists>c. visitClass example_visitor iface_Foo = Inr c
         \<and> name c = name (projr (visitInterface example_visitor iface_Foo))
         \<and> methods c = methods (projr (visitInterface example_visitor iface_Foo))
         \<and> properties c = properties (projr (visitInterface example_visitor iface_Foo))
         \<and> kind c = Class"
    by blast
  with visitInterface_Foo(1) b c show ?thesis by blast
qed

text \<open>
  C8. The result of visiting a project is the entries of its interfaces that
  pass the filter, in the order of the project, followed by the entries of its
  classes that pass the filter, in the order of the project. A project without
  reflections gives the empty sequence.
\<close>

theorem visitProject_order:
  "(\<forall>es. visitProject v p = Inr es \<longrightarrow>
      (\<exists>is cs. es = is @ cs
         \<and> mapE (visitInterface v)
              (filter (\<lambda>r. ref_kind r = KInterface \<and> passesFilter v r) (reflections p)) = Inr is
         \<and> mapE (visitClass v)
              (filter (\<lambda>r. ref_kind r = KClass \<and> passesFilter v r) (reflections p)) = Inr cs
         \<and> (\<forall>e\<in>set is. kind e = Interface) \<and> (\<forall>e\<in>set cs. kind e = Class)))
   \<and> (reflections p = [] \<longrightarrow> visitProject v p = Inr [])"
proof (intro conjI allI impI)
  fix es
  assume "visitProject v p = Inr es"
  then obtain "is" cs where es: "es = is @ cs"
    and i: "mapE (visitInterface v)
              (filter (passesFilter v) (getReflectionsByKind p KInterface)) = Inr is"
    and c: "mapE (visitClass v)
              (filter (passesFilter v) (getReflectionsByKind p KClass)) = Inr cs"
    by (auto simp: visitProject_def bindE_eq_Inr visitChildren_eq_Inr)
  from i have ki: "\<forall>e\<in>set is. kind e = Interface"
    by (rule mapE_all) (rule visitInterface_kind)
  from c have kc: "\<forall>e\<in>set cs. kind e = Class"
    by (rule mapE_all) (rule visitClass_kind)
  from es i c ki kc
  show "\<exists>is cs. es = is @ cs
         \<and> mapE (visitInterface v)
              (filter (\<lambda>r. ref_kind r = KInterface \<and> passesFilter v r) (reflections p)) = Inr is
         \<and> mapE (visitClass v)
              (filter (\<lambda>r. ref_kind r = KClass \<and> passesFilter v r) (reflections p)) = Inr cs
         \<and> (\<forall>e\<in>set is. kind e = Interface) \<and> (\<forall>e\<in>set cs. kind e = Class)"
    unfolding filter_kind_passes by blast
next
  assume "reflections p = []"
  then show "visitProject v p = Inr []"
    by (simp add: visitProject_def visitChildren_def getReflectionsByKind_def)
qed

theorem visitProject_order_witness:
  "map ref_name (reflections example_project) = [''Bar'', ''Foo'', ''bar'', ''size'']
   \<and> visitProject example_visitor example_project
       = Inr (projr (visitProject example_visitor example_project))
   \<and> (\<exists>is cs. projr (visitProject example_visitor example_project) = is @ cs
         \<and> mapE (visitInterface example_visitor) [iface_Foo] = Inr is
         \<and> mapE (visitClass example_visitor) [class_Bar] = Inr cs)
   \<and> map kind (projr (visitProject example_visitor example_project)) = [Interface, Class]
   \<and> map name (projr (visitProject example_visitor example_project)) = [''Foo'', ''Bar'']
   \<and> reflections \<lparr> reflections = [] \<rparr> = ([] :: string Reflection list)
   \<and> visitProject example_visitor \<lparr> reflections = [] \<rparr> = Inr []"
proof -
  have n: "map ref_name (reflections example_project) = [''Bar'', ''Foo'', ''bar'', ''size'']"
    by (simp add: example_defs)
  have fi: "filter (\<lambda>r. ref_kind r = KInterface \<and> passesFilter example_visitor r)
              (reflections example_project) = [iface_Foo]"
    and fc: "filter (\<lambda>r. ref_kind r = KClass \<and> passesFilter example_visitor r)
              (reflections example_project) = [class_Bar]"
    by (simp_all add: example_defs passesFilter_def hasFlags_def exported_def)
  from visitProject_order [of example_visitor example_project] visitProject_example(1)
  have a: "\<exists>is cs. projr (visitProject example_visitor example_project) = is @ cs
         \<and> mapE (visitInterface example_visitor) [iface_Foo] = Inr is
         \<and> mapE (visitClass example_visitor) [class_Bar] = Inr cs"
    unfolding fi fc by blast
  have e: "reflections \<lparr> reflections = [] \<rparr> = ([] :: string Reflection list)"
    by simp
  from visitProject_order [of example_visitor "\<lparr> reflections = [] \<rparr>"] e
  have b: "visitProject example_visitor \<lparr> reflections = [] \<rparr> = Inr []"
    by blast
  from n visitProject_example a e b show ?thesis by blast
qed

section \<open>The visitor on a world\<close>

subsection \<open>The visitor object is left as it was\<close>

lemma keeps_returnS: "keeps (returnS x)"
  by (simp add: keeps_def returnS_def)

lemma keeps_raiseS: "keeps (raiseS e)"
  by (simp add: keeps_def raiseS_def)

lemma keeps_readThis: "keeps readThis"
  by (simp add: keeps_def readThis_def)

lemma keeps_callS: "keeps (callS c)"
  by (simp add: keeps_def callS_def split: prod.splits sum.splits)

lemma keepsD: "keeps m \<Longrightarrow> fst (snd (m s)) = fst s"
  unfolding keeps_def by blast

lemma keeps_bindS:
  assumes "keeps m" and "\<And>x. keeps (f x)"
  shows "keeps (bindS m f)"
  unfolding keeps_def
proof
  fix s
  obtain r s' where ms: "m s = (r, s')" by (cases "m s")
  from keepsD [OF assms(1), of s] ms have s': "fst s' = fst s" by simp
  show "fst (snd (bindS m f s)) = fst s"
  proof (cases r)
    case (Inl e)
    with ms s' show ?thesis by (simp add: bindS_def)
  next
    case (Inr x)
    from assms(2) [of x] have "fst (snd (f x s')) = fst s'" by (rule keepsD)
    with ms s' Inr show ?thesis by (simp add: bindS_def)
  qed
qed

lemma keeps_mapS: "(\<And>x. keeps (f x)) \<Longrightarrow> keeps (mapS f xs)"
  by (induction xs) (auto intro!: keeps_bindS keeps_returnS)

lemma keeps_filterS: "(\<And>x. keeps (p x)) \<Longrightarrow> keeps (filterS p xs)"
  by (induction xs) (auto intro!: keeps_bindS keeps_returnS)

lemmas keeps_intros =
  keeps_bindS keeps_returnS keeps_raiseS keeps_readThis keeps_callS keeps_mapS keeps_filterS

lemma keeps_filterReflection: "keeps (filterReflection_st def)"
  unfolding filterReflection_st_def by (auto intro!: keeps_intros split: option.splits)

lemma keeps_visitChildren: "(\<And>x. keeps (visitor x)) \<Longrightarrow> keeps (visitChildren_st cs visitor)"
  unfolding visitChildren_st_def by (auto intro!: keeps_intros keeps_filterReflection)

lemma keeps_renderComment: "keeps (renderComment_st c)"
  unfolding renderComment_st_def Let_def by (auto intro!: keeps_intros split: option.splits)

lemma keeps_getFileName: "keeps (getFileName_st imp r)"
  unfolding getFileName_st_def Let_def
  by (auto intro!: keeps_intros split: option.splits list.splits)

lemma keeps_makeDocEntry: "keeps (makeDocEntry_st imp r k)"
  unfolding makeDocEntry_st_def
  by (auto intro!: keeps_intros keeps_renderComment keeps_getFileName)

lemma keeps_visitParameter: "keeps (visitParameter_st imp r)"
  unfolding visitParameter_st_def by (auto intro!: keeps_intros keeps_makeDocEntry)

lemma keeps_visitSignature: "keeps (visitSignature_st imp r)"
  unfolding visitSignature_st_def
  by (auto intro!: keeps_intros keeps_makeDocEntry keeps_visitParameter)

lemma keeps_visitMethod: "keeps (visitMethod_st imp r)"
  unfolding visitMethod_st_def
  by (auto intro!: keeps_intros keeps_makeDocEntry keeps_visitSignature split: option.splits)

lemma keeps_visitProperty: "keeps (visitProperty_st imp r)"
  unfolding visitProperty_st_def by (auto intro!: keeps_intros keeps_makeDocEntry)

lemma keeps_visitInterface: "keeps (visitInterface_st imp r)"
  unfolding visitInterface_st_def
  by (auto intro!: keeps_intros keeps_makeDocEntry keeps_visitChildren keeps_visitMethod
        keeps_visitProperty)

lemma keeps_visitClass: "keeps (visitClass_st imp r)"
  unfolding visitClass_st_def by (auto intro!: keeps_intros keeps_visitInterface)

lemma keeps_visitProject: "keeps (visitProject_st imp p)"
  unfolding visitProject_st_def
  by (auto intro!: keeps_intros keeps_visitChildren keeps_visitInterface keeps_visitClass)

subsection \<open>Results that do not depend on the world\<close>

lemma same_resultD: "same_result this m \<Longrightarrow> fst (m (this, w)) = fst (m (this, w'))"
  unfolding same_result_def by blast

lemma same_returnS: "same_result this (returnS x)"
  by (simp add: same_result_def returnS_def)

lemma same_raiseS: "same_result this (raiseS e)"
  by (simp add: same_result_def raiseS_def)

lemma same_readThis: "same_result this readThis"
  by (simp add: same_result_def readThis_def)

lemma same_callS:
  assumes "\<And>w w'. fst (c w) = fst (c w')"
  shows "same_result this (callS c)"
  unfolding same_result_def
proof (intro allI)
  fix w w'
  from assms [of w w'] show "fst (callS c (this, w)) = fst (callS c (this, w'))"
    by (cases "c w"; cases "c w'") (auto simp: callS_def split: sum.splits)
qed

lemma same_bindS:
  assumes k: "keeps m" and m: "same_result this m" and f: "\<And>x. same_result this (f x)"
  shows "same_result this (bindS m f)"
  unfolding same_result_def
proof (intro allI)
  fix w w'
  obtain r s1 where a: "m (this, w) = (r, s1)" by (cases "m (this, w)")
  obtain r' s2 where b: "m (this, w') = (r', s2)" by (cases "m (this, w')")
  from same_resultD [OF m, of w w'] a b have rr: "r' = r" by simp
  from keepsD [OF k, of "(this, w)"] a have s1: "s1 = (this, snd s1)"
    by (cases s1) simp
  from keepsD [OF k, of "(this, w')"] b have s2: "s2 = (this, snd s2)"
    by (cases s2) simp
  show "fst (bindS m f (this, w)) = fst (bindS m f (this, w'))"
  proof (cases r)
    case (Inl e)
    with a b rr show ?thesis by (simp add: bindS_def)
  next
    case (Inr x)
    from same_resultD [OF f [of x], of "snd s1" "snd s2"] s1 s2
    have "fst (f x s1) = fst (f x s2)" by simp
    with a b rr Inr show ?thesis by (simp add: bindS_def)
  qed
qed

lemma same_mapS:
  "(\<And>x. keeps (f x)) \<Longrightarrow> (\<And>x. same_result this (f x)) \<Longrightarrow> same_result this (mapS f xs)"
  by (induction xs) (auto intro!: same_bindS same_returnS keeps_mapS)

lemma same_filterS:
  "(\<And>x. keeps (p x)) \<Longrightarrow> (\<And>x. same_result this (p x)) \<Longrightarrow> same_result this (filterS p xs)"
  by (induction xs) (auto intro!: same_bindS same_returnS keeps_filterS)

lemmas same_intros = same_bindS same_returnS same_raiseS same_readThis same_mapS same_filterS

lemmas keeps_methods =
  keeps_intros keeps_filterReflection keeps_visitChildren keeps_renderComment
  keeps_getFileName keeps_makeDocEntry keeps_visitParameter keeps_visitSignature
  keeps_visitMethod keeps_visitProperty keeps_visitInterface keeps_visitClass
  keeps_visitProject

lemma same_filterReflection: "same_result this (filterReflection_st def)"
  unfolding filterReflection_st_def
  by (auto intro!: same_intros keeps_methods split: option.splits)

lemma same_visitChildren:
  "(\<And>x. keeps (visitor x)) \<Longrightarrow> (\<And>x. same_result this (visitor x))
     \<Longrightarrow> same_result this (visitChildren_st cs visitor)"
  unfolding visitChildren_st_def
  by (auto intro!: same_intros same_filterReflection keeps_methods)

lemma same_renderComment:
  assumes "\<And>x w w'. fst (this_compiler this x w) = fst (this_compiler this x w')"
  shows "same_result this (renderComment_st c)"
proof (cases c)
  case None
  then show ?thesis by (simp add: renderComment_st_def same_returnS)
next
  case (Some cm)
  have "same_result this (bindS readThis (\<lambda>t. bindS (callS (this_compiler t d))
          (\<lambda>block. returnS (Some block))))" for d
    unfolding same_result_def
  proof (intro allI)
    fix w w'
    from assms [of d w w']
    show "fst (bindS readThis (\<lambda>t. bindS (callS (this_compiler t d))
                (\<lambda>block. returnS (Some block))) (this, w))
          = fst (bindS readThis (\<lambda>t. bindS (callS (this_compiler t d))
                (\<lambda>block. returnS (Some block))) (this, w'))"
      by (cases "this_compiler this d w"; cases "this_compiler this d w'")
         (auto simp: bindS_def readThis_def callS_def returnS_def split: sum.splits)
  qed
  with Some show ?thesis by (simp add: renderComment_st_def Let_def)
qed

lemma same_call_fixed: "fixed_result c \<Longrightarrow> same_result this (callS (c x))"
  by (rule same_callS) (simp add: fixed_result_def)

lemma same_renderComment_fixed:
  "fixed_result (this_compiler this) \<Longrightarrow> same_result this (renderComment_st c)"
  by (rule same_renderComment) (simp add: fixed_result_def)

lemma same_getFileName: "fixed_imports imp \<Longrightarrow> same_result this (getFileName_st imp r)"
  unfolding getFileName_st_def Let_def fixed_imports_def
  by (auto intro!: same_intros same_call_fixed keeps_methods split: option.splits list.splits)

lemma same_makeDocEntry:
  "fixed_result (this_compiler this) \<Longrightarrow> fixed_imports imp
     \<Longrightarrow> same_result this (makeDocEntry_st imp r k)"
  unfolding makeDocEntry_st_def
  by (auto intro!: same_intros same_renderComment_fixed same_getFileName keeps_methods)

lemma same_visitParameter:
  "fixed_result (this_compiler this) \<Longrightarrow> fixed_imports imp
     \<Longrightarrow> same_result this (visitParameter_st imp r)"
  unfolding visitParameter_st_def
  by (auto intro!: same_intros same_makeDocEntry same_call_fixed keeps_methods
        simp: fixed_imports_def)

lemma same_visitSignature:
  "fixed_result (this_compiler this) \<Longrightarrow> fixed_imports imp
     \<Longrightarrow> same_result this (visitSignature_st imp r)"
  unfolding visitSignature_st_def
  by (auto intro!: same_intros same_makeDocEntry same_visitParameter same_call_fixed
        keeps_methods simp: fixed_imports_def)

lemma same_visitMethod:
  "fixed_result (this_compiler this) \<Longrightarrow> fixed_imports imp
     \<Longrightarrow> same_result this (visitMethod_st imp r)"
  unfolding visitMethod_st_def
  by (auto intro!: same_intros same_makeDocEntry same_visitSignature keeps_methods
        split: option.splits)

lemma same_visitProperty:
  "fixed_result (this_compiler this) \<Longrightarrow> fixed_imports imp
     \<Longrightarrow> same_result this (visitProperty_st imp r)"
  unfolding visitProperty_st_def
  by (auto intro!: same_intros same_makeDocEntry same_call_fixed keeps_methods
        simp: fixed_imports_def)

lemma same_visitInterface:
  "fixed_result (this_compiler this) \<Longrightarrow> fixed_imports imp
     \<Longrightarrow> same_result this (visitInterface_st imp r)"
  unfolding visitInterface_st_def
  by (auto intro!: same_intros same_makeDocEntry same_visitChildren same_visitMethod
        same_visitProperty keeps_methods)

lemma same_visitClass:
  "fixed_result (this_compiler this) \<Longrightarrow> fixed_imports imp
     \<Longrightarrow> same_result this (visitClass_st imp r)"
  unfolding visitClass_st_def
  by (auto intro!: same_intros same_visitInterface keeps_methods)

lemma same_visitProject:
  "fixed_result (this_compiler this) \<Longrightarrow> fixed_imports imp
     \<Longrightarrow> same_result this (visitProject_st imp p)"
  unfolding visitProject_st_def
  by (auto intro!: same_intros same_visitChildren same_visitInterface same_visitClass
        keeps_methods)

section \<open>Repeated calls\<close>

text \<open>
  C9. A call of visitProject leaves the visitor object as it was. With fixed
  collaborators, each giving the same answer in every world (the path function
  for the working directory among them), a second call on the same project, in
  the world the first call left behind, gives the same result as the first.
\<close>

theorem visitProject_repeatable:
  "fst (snd (visitProject_st imp p (this, w))) = this
   \<and> (fixed_result (this_compiler this) \<and> fixed_imports imp \<longrightarrow>
        fst (visitProject_st imp p (snd (visitProject_st imp p (this, w))))
          = fst (visitProject_st imp p (this, w)))"
proof (intro conjI impI)
  show k: "fst (snd (visitProject_st imp p (this, w))) = this"
    using keepsD [OF keeps_visitProject, of imp p "(this, w)"] by simp
  assume "fixed_result (this_compiler this) \<and> fixed_imports imp"
  then have "same_result this (visitProject_st imp p)"
    by (simp add: same_visitProject)
  from same_resultD [OF this, of "snd (snd (visitProject_st imp p (this, w)))" w] k
  show "fst (visitProject_st imp p (snd (visitProject_st imp p (this, w))))
          = fst (visitProject_st imp p (this, w))"
    by (metis prod.collapse)
qed


lemma collaborators_examples:
  "never_throws (this_compiler counting_this)" "imports_return lenient_imports"
  "fixed_result (this_compiler counting_this)" "fixed_imports strict_imports"
  by (auto simp: never_throws_def imports_return_def fixed_result_def fixed_imports_def
        st_example_defs split: option.splits)

theorem visitProject_repeatable_witness:
  "fixed_result (this_compiler counting_this) \<and> fixed_imports strict_imports
   \<and> snd (visitProject_st strict_imports typed_project (counting_this, 0)) = (counting_this, 8)
   \<and> fst (visitProject_st strict_imports typed_project (counting_this, 8))
       = fst (visitProject_st strict_imports typed_project (counting_this, 0))"
proof -
  note co = collaborators_examples(3,4)
  have a: "snd (visitProject_st strict_imports typed_project (counting_this, 0))
             = (counting_this, 8)"
    using visitProject_repeatable [of strict_imports typed_project counting_this 0]
    by (simp add: st_defs st_example_defs example_defs pure_defs)
  from visitProject_repeatable [of strict_imports typed_project counting_this 0] co
  have "fst (visitProject_st strict_imports typed_project
               (snd (visitProject_st strict_imports typed_project (counting_this, 0))))
          = fst (visitProject_st strict_imports typed_project (counting_this, 0))"
    by blast
  with a co show ?thesis by simp
qed

section \<open>When the visitor raises\<close>

subsection \<open>No type error of the visitor's own\<close>
























subsection \<open>Returning when the collaborators return\<close>






















subsection \<open>Collaborators that return and leave the world alone\<close>

lemma agreesD: "agrees this r m \<Longrightarrow> m (this, w) = (r, (this, w))"
  unfolding agrees_def by blast

lemma agrees_returnS: "agrees this (Inr x) (returnS x)"
  by (simp add: agrees_def returnS_def)

lemma agrees_raiseS: "agrees this (Inl e) (raiseS e)"
  by (simp add: agrees_def raiseS_def)

lemma agrees_bindS:
  assumes "agrees this r m" and "\<And>x. r = Inr x \<Longrightarrow> agrees this (g x) (f x)"
  shows "agrees this (bindE r g) (bindS m f)"
  unfolding agrees_def
proof (intro allI)
  fix w
  show "bindS m f (this, w) = (bindE r g, (this, w))"
  proof (cases r)
    case (Inl e)
    with agreesD [OF assms(1), of w] show ?thesis by (simp add: bindS_def)
  next
    case (Inr x)
    with agreesD [OF assms(1), of w] agreesD [OF assms(2) [OF Inr], of w]
    show ?thesis by (simp add: bindS_def)
  qed
qed

lemma agrees_bindS_pure:
  assumes "agrees this (Inr x) m" and "agrees this r (f x)"
  shows "agrees this r (bindS m f)"
  using agrees_bindS [OF assms(1), of "\<lambda>_. r" f] assms(2) by simp

lemma agrees_mapS: "(\<And>x. agrees this (g x) (f x)) \<Longrightarrow> agrees this (mapE g xs) (mapS f xs)"
  by (induction xs) (auto intro!: agrees_bindS agrees_returnS)

lemma agrees_filterS:
  "(\<And>x. agrees this (g x) (p x)) \<Longrightarrow> agrees this (filterE g xs) (filterS p xs)"
  by (induction xs) (auto intro!: agrees_bindS agrees_returnS)

lemma agrees_mapS_pure:
  "(\<And>x. agrees this (Inr (g x)) (f x)) \<Longrightarrow> agrees this (Inr (map g xs)) (mapS f xs)"
  using agrees_mapS [of this "\<lambda>x. Inr (g x)" f xs] by (simp add: mapE_pure)

lemma agrees_filterReflection:
  "agrees (pure_this v) (filterReflection v def) (filterReflection_st def)"
  by (cases "ref_flags def")
     (auto simp: agrees_def filterReflection_def filterReflection_st_def raiseS_def returnS_def
        bindS_def readThis_def pure_this_def)

lemma agrees_visitChildren:
  assumes "\<And>x. agrees (pure_this v) (g x) (f x)"
  shows "agrees (pure_this v) (visitChildren v cs g) (visitChildren_st cs f)"
  unfolding visitChildren_def visitChildren_st_def
  by (intro agrees_bindS agrees_filterS agrees_filterReflection agrees_mapS assms)

lemma agrees_renderComment:
  "agrees (pure_this v) (Inr (renderComment v c)) (renderComment_st c)"
  by (cases c)
     (auto simp: agrees_def renderComment_def renderComment_st_def Let_def returnS_def
        bindS_def readThis_def callS_def pure_this_def)

lemma agrees_getFileName:
  "agrees (pure_this v) (Inr (getFileName v r)) (getFileName_st (pure_imports v) r)"
  by (auto simp: agrees_def getFileName_def getFileName_st_def Let_def returnS_def
        bindS_def callS_def pure_imports_def split: option.splits list.splits)

lemma agrees_makeDocEntry:
  "agrees (pure_this v) (Inr (makeDocEntry v r k)) (makeDocEntry_st (pure_imports v) r k)"
  unfolding makeDocEntry_st_def makeDocEntry_def
  by (intro agrees_bindS_pure [OF agrees_renderComment] agrees_bindS_pure [OF agrees_getFileName]
        agrees_returnS)

lemma agrees_call_type:
  "agrees this (Inr (resolveTypeString v t)) (callS (imp_resolveTypeString (pure_imports v) t))"
  by (simp add: agrees_def callS_def pure_imports_def)

lemma agrees_call_signature:
  "agrees this (Inr (resolveSignature v sig)) (callS (imp_resolveSignature (pure_imports v) sig))"
  by (simp add: agrees_def callS_def pure_imports_def)

lemma agrees_visitParameter:
  "agrees (pure_this v) (Inr (visitParameter v r)) (visitParameter_st (pure_imports v) r)"
  unfolding visitParameter_st_def visitParameter_def Let_def
  by (intro agrees_bindS_pure [OF agrees_makeDocEntry] agrees_bindS_pure [OF agrees_call_type]
        agrees_returnS)

lemma agrees_visitProperty:
  "agrees (pure_this v) (Inr (visitProperty v r)) (visitProperty_st (pure_imports v) r)"
  unfolding visitProperty_st_def visitProperty_def Let_def
  by (intro agrees_bindS_pure [OF agrees_makeDocEntry] agrees_bindS_pure [OF agrees_call_type]
        agrees_returnS)

lemma agrees_visitSignature:
  "agrees (pure_this v) (Inr (visitSignature v r)) (visitSignature_st (pure_imports v) r)"
  unfolding visitSignature_st_def visitSignature_def Let_def
  by (intro agrees_bindS_pure [OF agrees_makeDocEntry]
        agrees_bindS_pure [OF agrees_mapS_pure [OF agrees_visitParameter]]
        agrees_bindS_pure [OF agrees_call_type] agrees_bindS_pure [OF agrees_call_signature]
        agrees_returnS)

lemma agrees_visitMethod:
  "agrees (pure_this v) (visitMethod v r) (visitMethod_st (pure_imports v) r)"
proof (cases "ref_signatures r")
  case None
  then show ?thesis
    unfolding visitMethod_st_def visitMethod_def Let_def
    by (auto intro!: agrees_bindS_pure [OF agrees_makeDocEntry] agrees_raiseS)
next
  case (Some sigs)
  then show ?thesis
    unfolding visitMethod_st_def visitMethod_def Let_def
    by (auto intro!: agrees_bindS_pure [OF agrees_makeDocEntry]
          agrees_bindS_pure [OF agrees_mapS_pure [OF agrees_visitSignature]] agrees_returnS)
qed

lemma agrees_visitInterface:
  "agrees (pure_this v) (visitInterface v r) (visitInterface_st (pure_imports v) r)"
  unfolding visitInterface_st_def visitInterface_def Let_def
  by (intro agrees_bindS_pure [OF agrees_makeDocEntry] agrees_bindS agrees_visitChildren
        agrees_visitMethod)
     (auto intro!: agrees_visitChildren [where g = "\<lambda>d. Inr (visitProperty v d)"]
        agrees_visitProperty agrees_returnS agrees_bindS)

lemma agrees_visitClass:
  "agrees (pure_this v) (visitClass v r) (visitClass_st (pure_imports v) r)"
  unfolding visitClass_st_def visitClass_def
  by (intro agrees_bindS agrees_visitInterface agrees_returnS)

lemma agrees_visitProject:
  "agrees (pure_this v) (visitProject v p) (visitProject_st (pure_imports v) p)"
  unfolding visitProject_st_def visitProject_def
  by (intro agrees_bindS agrees_visitChildren agrees_visitInterface agrees_visitClass
        agrees_returnS)

lemma visitProject_st_pure:
  "visitProject_st (pure_imports v) p (pure_this v, w) = (visitProject v p, (pure_this v, w))"
  by (rule agreesD [OF agrees_visitProject])






end
